theory Spec2Isabelle
  imports Main "HOL-Library.Word"
begin

section \<open>KCPlus: the \<open>KCPSession\<close> wrapper of \<open>kcplus.hpp\<close>\<close>

text \<open>
  \<open>kcplus.hpp\<close> is a C++ class around the C transport engine declared in \<open>ikcp.h\<close>.
  The header holds the whole class; the engine (\<open>ikcp_create\<close>, \<open>ikcp_input\<close>,
  \<open>ikcp_recv\<close>, ...) is an external library and is taken here as a parameter:
  a record of operations over an engine state \<open>'k\<close>. Every method of the class is a
  function of that record and of the session.
\<close>

subsection \<open>Machine types\<close>

text \<open>
  \<open>char\<close> is a byte, \<open>int\<close> and \<open>IUINT32\<close> are 32 bits wide, \<open>std::size_t\<close>
  (\<open>SizeType\<close>) and \<open>long\<close> are 64 bits wide (LP64). A signed value is read with
  \<open>sint\<close> and compared with \<open>\<le>s\<close>.
\<close>

type_synonym byte = "8 word"
type_synonym cint = "32 word"
type_synonym IUINT32 = "32 word"
type_synonym SizeType = "64 word"

subsection \<open>Arrays of \<open>char\<close>\<close>

text \<open>
  An array made by \<open>new char[n]\<close> has an address and its chars. \<open>new\<close> returns an
  address that is not in use: with \<open>live\<close> the addresses in use when it is called (those
  of the engine's internal buffers among them), \<open>new_address live\<close> is past them all.

  What the chars of a new array are depends on the build. \<open>receive\<close> has
  \<open>#if __cplusplus == 201402L\<close> \<open>std::make_unique<char[]>(packetSize)\<close>, which
  zeroes the array, and \<open>#else\<close> \<open>new char[packetSize]\<close>, which leaves in it what the
  memory held: \<open>uninitialised i\<close> at index \<open>i\<close>.
\<close>

type_synonym addr = nat

record char_array =
  base :: addr
  chars :: "byte list"

record build =
  cplusplus_201402 :: bool
  uninitialised :: "nat \<Rightarrow> byte"

definition new_address :: "addr list \<Rightarrow> addr" where
  "new_address live = Suc (fold max live 0)"

definition new_chars :: "build \<Rightarrow> addr list \<Rightarrow> nat \<Rightarrow> char_array" where
  "new_chars B live n =
     \<lparr>base = new_address live,
      chars = (if cplusplus_201402 B then replicate n 0 else map (uninitialised B) [0..<n])\<rparr>"

subsection \<open>\<open>struct Packet\<close>\<close>

text \<open>
  \<open>data\<close> is a \<open>std::unique_ptr<char[]>\<close>: \<open>None\<close> is \<open>nullptr\<close>, \<open>Some a\<close> is the
  pointer to the array \<open>a\<close>. The pointer is the array's only owner, so the array is kept
  with it: who holds the packet holds the array, at the address \<open>base a\<close>.
\<close>

record Packet =
  pkt_data :: "char_array option"
  pkt_size :: SizeType

subsection \<open>The engine of \<open>ikcp.h\<close>, as a parameter\<close>

text \<open>
  The engine calls the function stored in \<open>kcp->output\<close> for each buffer it puts on the
  wire. An emission is the pair \<open>(buf, len)\<close> of one such call: the bytes at \<open>buf\<close> and
  the \<open>int\<close> length. Whether a buffer holds one encoded segment or several is the
  engine's choice. The operations that flush (\<open>ikcp_update\<close>, \<open>ikcp_flush\<close>) and
  \<open>ikcp_input\<close> return the emissions they make, in order; the session's adapter
  \<open>mOutputFuncRaw\<close> answers every one of them with 0, so the emissions do not depend on
  the answers.

  \<open>ikcp_recv\<close> is given the address of the caller's buffer and its length: it returns
  its \<open>int\<close> result, the bytes it stores from \<open>buffer[0]\<close> on, and the new engine state.
  \<open>ikcp_peeksize\<close> takes a \<open>const ikcpcb *\<close> and returns a value only.
  \<open>kcp_buffers\<close> is the set of addresses of the buffers the engine holds (its segment
  queues and its output buffer).

  \<open>kcp_nodelay\<close> ... \<open>kcp_rcv_wnd\<close> read the fields \<open>nodelay\<close>, \<open>interval\<close>,
  \<open>fastresend\<close>, \<open>nocwnd\<close>, \<open>snd_wnd\<close> and \<open>rcv_wnd\<close> of the \<open>ikcpcb\<close>.
\<close>

type_synonym emission = "byte list \<times> cint"

record 'k ikcp =
  ikcp_create :: "IUINT32 \<Rightarrow> 'k"
  ikcp_input :: "'k \<Rightarrow> byte list \<Rightarrow> 64 word \<Rightarrow> cint \<times> emission list \<times> 'k"
  ikcp_peeksize :: "'k \<Rightarrow> cint"
  ikcp_recv :: "'k \<Rightarrow> addr \<Rightarrow> cint \<Rightarrow> cint \<times> byte list \<times> 'k"
  ikcp_send :: "'k \<Rightarrow> byte list \<Rightarrow> cint \<Rightarrow> cint \<times> 'k"
  ikcp_update :: "'k \<Rightarrow> IUINT32 \<Rightarrow> emission list \<times> 'k"
  ikcp_flush :: "'k \<Rightarrow> emission list \<times> 'k"
  ikcp_setmtu :: "'k \<Rightarrow> cint \<Rightarrow> cint \<times> 'k"
  ikcp_wndsize :: "'k \<Rightarrow> cint \<Rightarrow> cint \<Rightarrow> cint \<times> 'k"
  ikcp_nodelay :: "'k \<Rightarrow> cint \<Rightarrow> cint \<Rightarrow> cint \<Rightarrow> cint \<Rightarrow> cint \<times> 'k"
  kcp_nodelay :: "'k \<Rightarrow> cint"
  kcp_interval :: "'k \<Rightarrow> IUINT32"
  kcp_fastresend :: "'k \<Rightarrow> cint"
  kcp_nocwnd :: "'k \<Rightarrow> cint"
  kcp_snd_wnd :: "'k \<Rightarrow> IUINT32"
  kcp_rcv_wnd :: "'k \<Rightarrow> IUINT32"
  kcp_buffers :: "'k \<Rightarrow> addr set"

subsection \<open>\<open>class KCPSession\<close>\<close>

text \<open>
  A \<open>std::function\<close> is either empty (\<open>None\<close>) or holds a callable, named here by a
  handle. What a callable does is outside the class; the model records each call the
  session makes, with its arguments, in the order made.
\<close>

type_synonym fn = nat

datatype call =
  Output fn "byte list" SizeType
| Receive fn Packet

datatype exn =
  RuntimeError string
| BadFunctionCall

text \<open>
  How a method ends: it returns, it throws, or an \<open>assert\<close> fails and the process
  aborts. A method's outcome is this, the session afterwards and the calls made.
\<close>

datatype 'a result =
  Returned 'a
| Threw exn
| AssertFailed

record 'k KCPSession =
  mKcp :: 'k
  mOutputFunc :: "fn option"
  mAsyncMode :: bool
  mReceiveFunc :: "fn option"

type_synonym ('k, 'a) outcome = "'a result \<times> 'k KCPSession \<times> call list"

definition after :: "('k, 'a) outcome \<Rightarrow> 'k KCPSession" where
  "after out = fst (snd out)"

definition calls :: "('k, 'a) outcome \<Rightarrow> call list" where
  "calls out = snd (snd out)"

text \<open>
  The constructor's initialiser list is \<open>mKcp(ikcp_create(conv, this)), mOutputFunc(nullptr)\<close>.
  \<open>mReceiveFunc\<close> is default-constructed, which is empty. \<open>mAsyncMode\<close> is a \<open>bool\<close>
  with no initialiser: it keeps whatever its storage held, the argument \<open>indeterminate\<close>.
\<close>

definition KCPSession :: "'k ikcp \<Rightarrow> IUINT32 \<Rightarrow> bool \<Rightarrow> 'k KCPSession" where
  "KCPSession E conv indeterminate =
     \<lparr>mKcp = ikcp_create E conv, mOutputFunc = None,
      mAsyncMode = indeterminate, mReceiveFunc = None\<rparr>"

definition setAsyncMode :: "bool \<Rightarrow> 'k KCPSession \<Rightarrow> 'k KCPSession" where
  "setAsyncMode AsyncMode this = this\<lparr>mAsyncMode := AsyncMode\<rparr>"

definition setReceiveCallback :: "fn option \<Rightarrow> 'k KCPSession \<Rightarrow> 'k KCPSession" where
  "setReceiveCallback receiveCallback this = this\<lparr>mReceiveFunc := receiveCallback\<rparr>"

definition setOutputFunction :: "fn option \<Rightarrow> 'k KCPSession \<Rightarrow> 'k KCPSession" where
  "setOutputFunction outputFunction this = this\<lparr>mOutputFunc := outputFunction\<rparr>"

text \<open>
  \<open>mOutputFuncRaw(buf, len, kcp, user)\<close>: asserts that \<open>mOutputFunc\<close> is not null, calls
  it with \<open>buf\<close> and \<open>static_cast<SizeType>(len)\<close> (a sign extension), returns 0.
\<close>

definition mOutputFuncRaw :: "byte list \<Rightarrow> cint \<Rightarrow> 'k KCPSession \<Rightarrow> cint result \<times> call list" where
  "mOutputFuncRaw buf len thisptr =
     (case mOutputFunc thisptr of
        None \<Rightarrow> (AssertFailed, [])
      | Some f \<Rightarrow> (Returned 0, [Output f buf (scast len)]))"

text \<open>
  The engine running through its emissions: one call of \<open>kcp->output\<close>, which the
  constructor sets to \<open>mOutputFuncRaw\<close>, for each. A failed assertion ends the run.
\<close>

fun emit :: "'k KCPSession \<Rightarrow> emission list \<Rightarrow> unit result \<times> call list" where
  "emit thisptr [] = (Returned (), [])"
| "emit thisptr ((buf, len) # rest) =
     (case mOutputFuncRaw buf len thisptr of
        (Returned r, cs) \<Rightarrow> (case emit thisptr rest of (res, cs') \<Rightarrow> (res, cs @ cs'))
      | (Threw e, cs) \<Rightarrow> (Threw e, cs)
      | (AssertFailed, cs) \<Rightarrow> (AssertFailed, cs))"

definition hasReceivablePacket :: "'k ikcp \<Rightarrow> 'k KCPSession \<Rightarrow> bool" where
  "hasReceivablePacket E this \<longleftrightarrow> 0 \<le>s ikcp_peeksize E (mKcp this)"

definition nextPacketSize :: "'k ikcp \<Rightarrow> 'k KCPSession \<Rightarrow> SizeType" where
  "nextPacketSize E this =
     (let size = ikcp_peeksize E (mKcp this)
      in if 0 \<le>s size then scast size else 0)"

text \<open>
  \<open>store_bytes\<close> is the engine writing into the buffer from index 0. Nothing stops a
  write longer than the array (in C++ a buffer overflow): the bytes past the end are
  kept, so that such a write shows as chars beyond the array's length.
\<close>

definition store_bytes :: "byte list \<Rightarrow> byte list \<Rightarrow> byte list" where
  "store_bytes written buffer = written @ drop (length written) buffer"

definition inconsistency :: exn where
  "inconsistency = RuntimeError ''receive: Internal inconsistency error!''"

text \<open>
  \<open>receive()\<close>, in the build \<open>B\<close>, with \<open>live\<close> the addresses in use. The packet's array
  is made first; \<open>ikcp_recv\<close> gets its address (\<open>packet.data.get()\<close>) and
  \<open>static_cast<int>(packetSize)\<close>, the low 32 bits. The comparison
  \<open>ikcp_recv(...) != packetSize\<close> is between an \<open>int\<close> and a \<open>SizeType\<close>: the \<open>int\<close> is
  converted to \<open>SizeType\<close> first. The packet is returned by move.
\<close>

definition receive ::
  "'k ikcp \<Rightarrow> build \<Rightarrow> addr list \<Rightarrow> 'k KCPSession \<Rightarrow> ('k, Packet) outcome" where
  "receive E B live this =
     (if hasReceivablePacket E this then
        (let packetSize = nextPacketSize E this;
             buffer = new_chars B live (unat packetSize);
             (ret, written, kcp') = ikcp_recv E (mKcp this) (base buffer) (ucast packetSize);
             packet = \<lparr>pkt_data = Some (buffer\<lparr>chars := store_bytes written (chars buffer)\<rparr>),
                       pkt_size = packetSize\<rparr>;
             this' = this\<lparr>mKcp := kcp'\<rparr>
         in if (scast ret :: SizeType) \<noteq> packetSize
            then (Threw inconsistency, this', [])
            else (Returned packet, this', []))
      else (Returned \<lparr>pkt_data = None, pkt_size = 0\<rparr>, this, []))"

text \<open>
  \<open>input(data, size)\<close> (the parameter \<open>size\<close> is \<open>sz\<close> here): \<open>ikcp_input\<close>, then
  under async mode, when a packet is receivable, \<open>mReceiveFunc(receive())\<close>. Calling an
  empty \<open>std::function\<close> throws \<open>std::bad_function_call\<close>.
\<close>

definition input ::
  "'k ikcp \<Rightarrow> build \<Rightarrow> addr list \<Rightarrow> byte list \<Rightarrow> SizeType \<Rightarrow> 'k KCPSession
     \<Rightarrow> ('k, unit) outcome" where
  "input E B live data sz this =
     (let (ret, ems, kcp') = ikcp_input E (mKcp this) data sz;
          this1 = this\<lparr>mKcp := kcp'\<rparr>
      in case emit this1 ems of
           (Returned u, cs) \<Rightarrow>
             if mAsyncMode this1 \<and> hasReceivablePacket E this1 then
               (case receive E B live this1 of
                  (Returned packet, this2, cs2) \<Rightarrow>
                    (case mReceiveFunc this2 of
                       None \<Rightarrow> (Threw BadFunctionCall, this2, cs @ cs2)
                     | Some f \<Rightarrow> (Returned (), this2, cs @ cs2 @ [Receive f packet]))
                | (Threw e, this2, cs2) \<Rightarrow> (Threw e, this2, cs @ cs2)
                | (AssertFailed, this2, cs2) \<Rightarrow> (AssertFailed, this2, cs @ cs2))
             else (Returned (), this1, cs)
         | (Threw e, cs) \<Rightarrow> (Threw e, this1, cs)
         | (AssertFailed, cs) \<Rightarrow> (AssertFailed, this1, cs))"

text \<open>\<open>send(data, size)\<close> passes \<open>static_cast<int>(size)\<close> and drops the \<open>int\<close> it gets back.\<close>

definition send :: "'k ikcp \<Rightarrow> byte list \<Rightarrow> SizeType \<Rightarrow> 'k KCPSession \<Rightarrow> ('k, unit) outcome" where
  "send E data sz this =
     (let (ret, kcp') = ikcp_send E (mKcp this) data (ucast sz)
      in (Returned (), this\<lparr>mKcp := kcp'\<rparr>, []))"

definition update :: "'k ikcp \<Rightarrow> IUINT32 \<Rightarrow> 'k KCPSession \<Rightarrow> ('k, unit) outcome" where
  "update E currentTimestamp this =
     (let (ems, kcp') = ikcp_update E (mKcp this) currentTimestamp;
          this' = this\<lparr>mKcp := kcp'\<rparr>
      in case emit this' ems of (res, cs) \<Rightarrow> (res, this', cs))"

definition flush :: "'k ikcp \<Rightarrow> 'k KCPSession \<Rightarrow> ('k, unit) outcome" where
  "flush E this =
     (let (ems, kcp') = ikcp_flush E (mKcp this);
          this' = this\<lparr>mKcp := kcp'\<rparr>
      in case emit this' ems of (res, cs) \<Rightarrow> (res, this', cs))"

text \<open>The setters return \<open>void\<close>; each drops the \<open>int\<close> the engine returns.\<close>

definition setMTU :: "'k ikcp \<Rightarrow> cint \<Rightarrow> 'k KCPSession \<Rightarrow> ('k, unit) outcome" where
  "setMTU E mtu this =
     (let (ret, kcp') = ikcp_setmtu E (mKcp this) mtu
      in (Returned (), this\<lparr>mKcp := kcp'\<rparr>, []))"

definition setMaxSendWindowSize :: "'k ikcp \<Rightarrow> cint \<Rightarrow> 'k KCPSession \<Rightarrow> ('k, unit) outcome" where
  "setMaxSendWindowSize E sendWindow this =
     (let (ret, kcp') = ikcp_wndsize E (mKcp this) sendWindow 0
      in (Returned (), this\<lparr>mKcp := kcp'\<rparr>, []))"

definition setMaxReceiveWindowSize :: "'k ikcp \<Rightarrow> cint \<Rightarrow> 'k KCPSession \<Rightarrow> ('k, unit) outcome" where
  "setMaxReceiveWindowSize E receiveWindow this =
     (let (ret, kcp') = ikcp_wndsize E (mKcp this) 0 receiveWindow
      in (Returned (), this\<lparr>mKcp := kcp'\<rparr>, []))"

definition NotChanged :: cint where
  "NotChanged = - 1"

definition setPropertiesPrivate ::
  "'k ikcp \<Rightarrow> cint \<Rightarrow> cint \<Rightarrow> cint \<Rightarrow> cint \<Rightarrow> 'k KCPSession \<Rightarrow> ('k, unit) outcome" where
  "setPropertiesPrivate E nodelay interval resend nc this =
     (let (ret, kcp') = ikcp_nodelay E (mKcp this) nodelay interval resend nc
      in (Returned (), this\<lparr>mKcp := kcp'\<rparr>, []))"

definition setNodelay :: "'k ikcp \<Rightarrow> bool \<Rightarrow> 'k KCPSession \<Rightarrow> ('k, unit) outcome" where
  "setNodelay E nodelay this =
     setPropertiesPrivate E (if nodelay then 1 else 0) NotChanged NotChanged NotChanged this"

definition setInternalInterval :: "'k ikcp \<Rightarrow> cint \<Rightarrow> 'k KCPSession \<Rightarrow> ('k, unit) outcome" where
  "setInternalInterval E internalInterval this =
     setPropertiesPrivate E NotChanged internalInterval NotChanged NotChanged this"

definition setFastResendThreshold :: "'k ikcp \<Rightarrow> cint \<Rightarrow> 'k KCPSession \<Rightarrow> ('k, unit) outcome" where
  "setFastResendThreshold E fastResendThreshold this =
     setPropertiesPrivate E NotChanged NotChanged fastResendThreshold NotChanged this"

definition setCongestionControl :: "'k ikcp \<Rightarrow> bool \<Rightarrow> 'k KCPSession \<Rightarrow> ('k, unit) outcome" where
  "setCongestionControl E congestionControl this =
     setPropertiesPrivate E NotChanged NotChanged NotChanged (if congestionControl then 0 else 1) this"

subsection \<open>The engine's treatment of \<open>NotChanged\<close> and of a zero window\<close>

text \<open>
  The setters pass \<open>NotChanged\<close> (\<open>-1\<close>) to \<open>ikcp_nodelay\<close>, and 0 to \<open>ikcp_wndsize\<close>, in
  the positions they do not mean to set. What the engine does with such an argument is
  its own: these two predicates say that it leaves the field alone.
\<close>

definition nodelay_keeps :: "'k ikcp \<Rightarrow> bool" where
  "nodelay_keeps E \<longleftrightarrow>
     (\<forall>k nodelay interval resend nc.
        (nodelay = NotChanged \<longrightarrow>
           kcp_nodelay E (snd (ikcp_nodelay E k nodelay interval resend nc)) = kcp_nodelay E k) \<and>
        (interval = NotChanged \<longrightarrow>
           kcp_interval E (snd (ikcp_nodelay E k nodelay interval resend nc)) = kcp_interval E k) \<and>
        (resend = NotChanged \<longrightarrow>
           kcp_fastresend E (snd (ikcp_nodelay E k nodelay interval resend nc)) = kcp_fastresend E k) \<and>
        (nc = NotChanged \<longrightarrow>
           kcp_nocwnd E (snd (ikcp_nodelay E k nodelay interval resend nc)) = kcp_nocwnd E k))"

definition wndsize_keeps :: "'k ikcp \<Rightarrow> bool" where
  "wndsize_keeps E \<longleftrightarrow>
     (\<forall>k sndwnd rcvwnd.
        (sndwnd = 0 \<longrightarrow>
           kcp_snd_wnd E (snd (ikcp_wndsize E k sndwnd rcvwnd)) = kcp_snd_wnd E k) \<and>
        (rcvwnd = 0 \<longrightarrow>
           kcp_rcv_wnd E (snd (ikcp_wndsize E k sndwnd rcvwnd)) = kcp_rcv_wnd E k))"

text \<open>
  \<open>ikcp_recv\<close> is handed the address of the caller's buffer for the time of the call.
  That the engine does not keep it, and so does not count the caller's buffer among its
  own afterwards, is again the engine's own matter.
\<close>

definition recv_adopts_nothing :: "'k ikcp \<Rightarrow> bool" where
  "recv_adopts_nothing E \<longleftrightarrow>
     (\<forall>k buffer len.
        buffer \<notin> kcp_buffers E k \<longrightarrow>
        buffer \<notin> kcp_buffers E (snd (snd (ikcp_recv E k buffer len))))"

subsection \<open>A small engine to run the session on\<close>

text \<open>
  An engine with no protocol: a datagram is one header byte (81) and one whole message,
  and an empty datagram is dropped with \<open>-1\<close>; \<open>ikcp_send\<close> queues a message and a
  flush emits each queued message as one datagram. It holds one buffer of its own, at
  address 1. Its configuration calls take the
  conventions the class relies on: a negative argument of \<open>ikcp_nodelay\<close> and a
  non-positive one of \<open>ikcp_wndsize\<close> leave the field as it is; \<open>ikcp_setmtu\<close> refuses
  an MTU below 50, and \<open>ikcp_send\<close> a negative length, with \<open>-1\<close>. It serves to
  evaluate the methods on concrete sessions; no general statement below depends on it.
\<close>

record stub_kcp =
  stub_rcv_queue :: "byte list list"
  stub_snd_queue :: "byte list list"
  stub_mtu :: cint
  stub_nodelay :: cint
  stub_interval :: IUINT32
  stub_fastresend :: cint
  stub_nocwnd :: cint
  stub_snd_wnd :: IUINT32
  stub_rcv_wnd :: IUINT32
  stub_buffer :: addr

definition stub_create :: "IUINT32 \<Rightarrow> stub_kcp" where
  "stub_create conv =
     \<lparr>stub_rcv_queue = [], stub_snd_queue = [], stub_mtu = 1400, stub_nodelay = 0,
      stub_interval = 100, stub_fastresend = 0, stub_nocwnd = 0,
      stub_snd_wnd = 32, stub_rcv_wnd = 128, stub_buffer = 1\<rparr>"

definition stub_input :: "stub_kcp \<Rightarrow> byte list \<Rightarrow> 64 word \<Rightarrow> cint \<times> emission list \<times> stub_kcp" where
  "stub_input k data sz =
     (if sz = 0 then (- 1, [], k)
      else (0, [], k\<lparr>stub_rcv_queue := stub_rcv_queue k @ [tl (take (unat sz) data)]\<rparr>))"

definition stub_peeksize :: "stub_kcp \<Rightarrow> cint" where
  "stub_peeksize k =
     (case stub_rcv_queue k of [] \<Rightarrow> - 1 | m # ms \<Rightarrow> of_nat (length m))"

definition stub_recv :: "stub_kcp \<Rightarrow> addr \<Rightarrow> cint \<Rightarrow> cint \<times> byte list \<times> stub_kcp" where
  "stub_recv k buffer len =
     (case stub_rcv_queue k of
        [] \<Rightarrow> (- 1, [], k)
      | m # ms \<Rightarrow>
          if len <s of_nat (length m) then (- 3, [], k)
          else (of_nat (length m), m, k\<lparr>stub_rcv_queue := ms\<rparr>))"

definition stub_send :: "stub_kcp \<Rightarrow> byte list \<Rightarrow> cint \<Rightarrow> cint \<times> stub_kcp" where
  "stub_send k buffer len =
     (if len <s 0 then (- 1, k)
      else (0, k\<lparr>stub_snd_queue := stub_snd_queue k @ [take (unat len) buffer]\<rparr>))"

definition stub_flush :: "stub_kcp \<Rightarrow> emission list \<times> stub_kcp" where
  "stub_flush k =
     (map (\<lambda>m. (81 # m, of_nat (length m) + 1)) (stub_snd_queue k),
      k\<lparr>stub_snd_queue := []\<rparr>)"

definition stub_setmtu :: "stub_kcp \<Rightarrow> cint \<Rightarrow> cint \<times> stub_kcp" where
  "stub_setmtu k mtu = (if mtu <s 50 then (- 1, k) else (0, k\<lparr>stub_mtu := mtu\<rparr>))"

definition stub_wndsize :: "stub_kcp \<Rightarrow> cint \<Rightarrow> cint \<Rightarrow> cint \<times> stub_kcp" where
  "stub_wndsize k sndwnd rcvwnd =
     (0, k\<lparr>stub_snd_wnd := (if 0 <s sndwnd then sndwnd else stub_snd_wnd k),
           stub_rcv_wnd := (if 0 <s rcvwnd then max rcvwnd 128 else stub_rcv_wnd k)\<rparr>)"

definition stub_set_nodelay :: "stub_kcp \<Rightarrow> cint \<Rightarrow> cint \<Rightarrow> cint \<Rightarrow> cint \<Rightarrow> cint \<times> stub_kcp" where
  "stub_set_nodelay k nodelay interval resend nc =
     (0, k\<lparr>stub_nodelay := (if 0 \<le>s nodelay then nodelay else stub_nodelay k),
           stub_interval :=
             (if 0 \<le>s interval
              then (if 5000 <s interval then 5000 else if interval <s 10 then 10 else interval)
              else stub_interval k),
           stub_fastresend := (if 0 \<le>s resend then resend else stub_fastresend k),
           stub_nocwnd := (if 0 \<le>s nc then nc else stub_nocwnd k)\<rparr>)"

definition stub :: "stub_kcp ikcp" where
  "stub =
     \<lparr>ikcp_create = stub_create, ikcp_input = stub_input, ikcp_peeksize = stub_peeksize,
      ikcp_recv = stub_recv, ikcp_send = stub_send,
      ikcp_update = (\<lambda>k current. stub_flush k), ikcp_flush = stub_flush,
      ikcp_setmtu = stub_setmtu, ikcp_wndsize = stub_wndsize, ikcp_nodelay = stub_set_nodelay,
      kcp_nodelay = stub_nodelay, kcp_interval = stub_interval,
      kcp_fastresend = stub_fastresend, kcp_nocwnd = stub_nocwnd,
      kcp_snd_wnd = stub_snd_wnd, kcp_rcv_wnd = stub_rcv_wnd,
      kcp_buffers = (\<lambda>k. {stub_buffer k})\<rparr>"

text \<open>The same engine with an \<open>ikcp_recv\<close> that fails whatever the queue holds.\<close>

definition broken :: "stub_kcp ikcp" where
  "broken = stub\<lparr>ikcp_recv := (\<lambda>k buffer len. (- 1, [], k))\<rparr>"

text \<open>The same engine with an \<open>ikcp_input\<close> that sends the datagram back at once.\<close>

definition echo :: "stub_kcp ikcp" where
  "echo = stub\<lparr>ikcp_input :=
     (\<lambda>k data sz. (0, [(take (unat sz) data, ucast sz)], snd (snd (stub_input k data sz))))\<rparr>"

text \<open>The same engine with an \<open>ikcp_recv\<close> that stores the first byte only.\<close>

definition short :: "stub_kcp ikcp" where
  "short = stub\<lparr>ikcp_recv :=
     (\<lambda>k buffer len. case stub_recv k buffer len of
        (ret, written, k') \<Rightarrow> (ret, take 1 written, k'))\<rparr>"

text \<open>
  The same engine with an \<open>ikcp_flush\<close> that packs all queued segments into one output
  buffer and hands them over in one call.
\<close>

definition batching :: "stub_kcp ikcp" where
  "batching = stub\<lparr>ikcp_flush :=
     (\<lambda>k. (if stub_snd_queue k = [] then []
           else [(concat (map (\<lambda>m. 81 # m) (stub_snd_queue k)),
                  of_nat (length (concat (map (\<lambda>m. 81 # m) (stub_snd_queue k)))))],
          k\<lparr>stub_snd_queue := []\<rparr>))\<rparr>"

text \<open>
  Two builds, one with \<open>__cplusplus == 201402L\<close> and one without, on memory that holds
  170 everywhere; and the addresses in use, the engine's buffer.
\<close>

definition cxx14 :: build where
  "cxx14 = \<lparr>cplusplus_201402 = True, uninitialised = (\<lambda>i. 170)\<rparr>"

definition cxx11 :: build where
  "cxx11 = \<lparr>cplusplus_201402 = False, uninitialised = (\<lambda>i. 170)\<rparr>"

definition in_use :: "addr list" where
  "in_use = [1]"

text \<open>
  Sessions on that engine: one just constructed (with \<open>mAsyncMode\<close> clear); the same
  after \<open>input\<close> of a two-byte message, and of an empty one; with an output function;
  after \<open>send\<close> of three bytes, without and with an output function, and after a second
  \<open>send\<close> of two bytes; in async mode with a receive callback.
\<close>

definition fresh :: "stub_kcp KCPSession" where
  "fresh = KCPSession stub 0 False"

definition holding :: "stub_kcp KCPSession" where
  "holding = after (input stub cxx11 in_use [81, 104, 105] 3 fresh)"

definition holding_empty :: "stub_kcp KCPSession" where
  "holding_empty = after (input stub cxx11 in_use [81] 1 fresh)"

definition with_sink :: "stub_kcp KCPSession" where
  "with_sink = setOutputFunction (Some 7) fresh"

definition queued :: "stub_kcp KCPSession" where
  "queued = after (send stub [1, 2, 3] 3 fresh)"

definition queued_sink :: "stub_kcp KCPSession" where
  "queued_sink = after (send stub [1, 2, 3] 3 with_sink)"

definition queued_two :: "stub_kcp KCPSession" where
  "queued_two = after (send stub [4, 5] 2 queued_sink)"

definition async :: "stub_kcp KCPSession" where
  "async = setReceiveCallback (Some 5) (setAsyncMode True fresh)"

section \<open>Casts between \<open>int\<close> and \<open>SizeType\<close>\<close>

lemma scast_inj32: "(scast (a :: 32 word) :: 64 word) = scast b \<longleftrightarrow> a = b"
proof
  assume "(scast a :: 64 word) = scast b"
  then have "sint (scast a :: 64 word) = sint (scast b :: 64 word)" by simp
  then have "sint a = sint b" by (simp add: sint_up_scast is_up)
  then show "a = b" by (rule signed_word_eqI)
qed simp

lemma low_scast: "(ucast (scast (x :: 32 word) :: 64 word) :: 32 word) = x"
  by (rule bit_word_eqI) (auto simp add: bit_ucast_iff bit_word_scast_iff dest: bit_imp_le_length)

lemma uint_scast_nonneg: "0 \<le>s (x :: 32 word) \<Longrightarrow> uint (scast x :: 64 word) = sint x"
proof -
  assume nn: "0 \<le>s x"
  have up: "sint (scast x :: 64 word) = sint x" by (simp add: sint_up_scast is_up)
  from nn have lo: "0 \<le> sint x" by (simp add: word_sle_eq)
  have "sint x < 2 ^ (LENGTH(32) - 1)" by (rule sint_lt)
  also have "\<dots> \<le> (2 :: int) ^ LENGTH(64)" by (rule power_increasing) simp_all
  finally have hi: "sint x < 2 ^ LENGTH(64)" .
  have "uint (scast x :: 64 word) = take_bit LENGTH(64) (sint (scast x :: 64 word))"
    by (rule uint_sint)
  also have "\<dots> = take_bit LENGTH(64) (sint x)" by (simp only: up)
  also have "\<dots> = sint x" using lo hi by (rule take_bit_int_eq_self)
  finally show ?thesis .
qed

lemma sint_ucast_small:
  "uint (sz :: 64 word) < 2 ^ 31 \<Longrightarrow> sint (ucast sz :: 32 word) = uint sz"
proof -
  assume hi: "uint sz < 2 ^ 31"
  have lo: "- (2 ^ 31) \<le> uint sz"
  proof -
    have "- (2 ^ 31) \<le> (0 :: int)" by simp
    also have "0 \<le> uint sz" by (rule uint_nonnegative)
    finally show ?thesis .
  qed
  have "sint (ucast sz :: 32 word) = signed_take_bit (LENGTH(32) - Suc 0) (uint sz)"
    by (rule signed_ucast_eq)
  also have "\<dots> = signed_take_bit 31 (uint sz)" by simp
  also have "\<dots> = uint sz" using lo hi by (rule signed_take_bit_int_eq_self)
  finally show ?thesis .
qed

section \<open>Evaluating the small engine\<close>

lemmas stub_defs = stub_def stub_create_def stub_input_def stub_peeksize_def
  stub_recv_def stub_send_def stub_flush_def stub_setmtu_def stub_wndsize_def
  stub_set_nodelay_def

lemmas session_defs = KCPSession_def mOutputFuncRaw_def hasReceivablePacket_def
  nextPacketSize_def store_bytes_def new_chars_def new_address_def receive_def input_def
  send_def update_def flush_def

lemmas example_defs = after_def calls_def cxx11_def in_use_def fresh_def holding_def queued_def

lemmas signed_order_defs = word_sle_eq word_sless_alt

section \<open>\<open>receive\<close>\<close>

lemma fold_max_upper: "a \<in> set xs \<Longrightarrow> a \<le> fold max xs (b :: nat)"
proof (induction xs arbitrary: b)
  case Nil
  then show ?case by simp
next
  case (Cons x xs)
  have mono: "c \<le> fold max ys (c :: nat)" for c ys
    by (induction ys arbitrary: c) (auto intro: order_trans [OF max.cobounded2])
  show ?case
  proof (cases "a = x")
    case True
    have "a \<le> max x b" using True by simp
    also have "\<dots> \<le> fold max xs (max x b)" by (rule mono)
    finally show ?thesis by simp
  next
    case False
    with Cons.prems have "a \<in> set xs" by simp
    then show ?thesis using Cons.IH by simp
  qed
qed

lemma new_address_fresh: "new_address live \<notin> set live"
proof
  assume "new_address live \<in> set live"
  then have "new_address live \<le> fold max live 0" by (rule fold_max_upper)
  then show False by (simp add: new_address_def)
qed

lemma base_new_chars: "base (new_chars B live n) = new_address live"
  by (simp add: new_chars_def)

lemma length_new_chars: "length (chars (new_chars B live n)) = n"
  by (simp add: new_chars_def)

lemma length_store_bytes:
  "length written \<le> length buffer \<Longrightarrow> length (store_bytes written buffer) = length buffer"
  by (simp add: store_bytes_def)

lemma store_bytes_whole:
  "length written = length buffer \<Longrightarrow> store_bytes written buffer = written"
  by (simp add: store_bytes_def)

lemma nextPacketSize_receivable:
  "hasReceivablePacket E this \<Longrightarrow> nextPacketSize E this = scast (ikcp_peeksize E (mKcp this))"
  by (simp add: hasReceivablePacket_def nextPacketSize_def)

lemma nextPacketSize_none:
  "\<not> hasReceivablePacket E this \<Longrightarrow> nextPacketSize E this = 0"
  by (simp add: hasReceivablePacket_def nextPacketSize_def)

text \<open>
  \<open>receive\<close> on a session with a receivable packet, the casts resolved: the engine is
  asked for exactly the size it reported, and the exception is thrown when it answers
  with another \<open>int\<close>.
\<close>

lemma receive_receivable:
  assumes "hasReceivablePacket E this"
  shows "receive E B live this =
     (if fst (ikcp_recv E (mKcp this) (new_address live) (ikcp_peeksize E (mKcp this)))
           \<noteq> ikcp_peeksize E (mKcp this)
      then (Threw inconsistency,
            this\<lparr>mKcp := snd (snd (ikcp_recv E (mKcp this) (new_address live)
                                   (ikcp_peeksize E (mKcp this))))\<rparr>, [])
      else (Returned
             \<lparr>pkt_data = Some
                \<lparr>base = new_address live,
                 chars = store_bytes
                   (fst (snd (ikcp_recv E (mKcp this) (new_address live)
                                (ikcp_peeksize E (mKcp this)))))
                   (chars (new_chars B live (unat (nextPacketSize E this))))\<rparr>,
              pkt_size = nextPacketSize E this\<rparr>,
            this\<lparr>mKcp := snd (snd (ikcp_recv E (mKcp this) (new_address live)
                                   (ikcp_peeksize E (mKcp this))))\<rparr>, []))"
  using assms
  by (simp add: receive_def nextPacketSize_receivable low_scast scast_inj32 Let_def
      new_chars_def split: prod.splits)

lemma receive_none:
  "\<not> hasReceivablePacket E this \<Longrightarrow>
   receive E B live this = (Returned \<lparr>pkt_data = None, pkt_size = 0\<rparr>, this, [])"
  by (simp add: receive_def)

text \<open>
  C2. \<open>receive()\<close> returns a message or the empty packet. With nothing receivable it
  returns the packet with null data and size 0 and leaves the session as it was. With a
  message receivable, a packet it returns has the size the engine reported for that
  message, and the session is left as \<open>ikcp_recv\<close>, called once with that size, left the
  engine; nothing else of the session changes and no callback is called.

  The packet's data is an array made by \<open>new\<close> inside \<open>receive\<close>: its address is none
  of the addresses in use when \<open>receive\<close> is called, and, when the engine's buffers are
  among those and \<open>ikcp_recv\<close> does not keep the pointer it is handed, none of the
  engine's buffers afterwards. The packet is the array's one holder. Its chars are what
  the engine stored, over the new array's chars (zeros in the C++14 build, whatever the
  memory held otherwise): exactly the engine's bytes when the engine stores as many as
  it reported, and an array of exactly the reported size when it stores no more.
\<close>

theorem receive_message_or_empty:
  "(\<not> hasReceivablePacket E this \<longrightarrow>
      receive E B live this = (Returned \<lparr>pkt_data = None, pkt_size = 0\<rparr>, this, [])) \<and>
   (hasReceivablePacket E this \<longrightarrow>
      (\<forall>packet this' cs. receive E B live this = (Returned packet, this', cs) \<longrightarrow>
         uint (pkt_size packet) = sint (ikcp_peeksize E (mKcp this)) \<and>
         this' = this\<lparr>mKcp := snd (snd (ikcp_recv E (mKcp this) (new_address live)
                                        (ikcp_peeksize E (mKcp this))))\<rparr> \<and>
         cs = [] \<and>
         (\<exists>buf. pkt_data packet = Some \<lparr>base = new_address live, chars = buf\<rparr> \<and>
            new_address live \<notin> set live \<and>
            (kcp_buffers E (mKcp this) \<subseteq> set live \<and> recv_adopts_nothing E \<longrightarrow>
               new_address live \<notin> kcp_buffers E (mKcp this')) \<and>
            buf = store_bytes
                    (fst (snd (ikcp_recv E (mKcp this) (new_address live)
                                 (ikcp_peeksize E (mKcp this)))))
                    (chars (new_chars B live (unat (pkt_size packet)))) \<and>
            (length (fst (snd (ikcp_recv E (mKcp this) (new_address live)
                                 (ikcp_peeksize E (mKcp this))))) \<le> unat (pkt_size packet) \<longrightarrow>
               length buf = unat (pkt_size packet)) \<and>
            (length (fst (snd (ikcp_recv E (mKcp this) (new_address live)
                                 (ikcp_peeksize E (mKcp this))))) = unat (pkt_size packet) \<longrightarrow>
               buf = fst (snd (ikcp_recv E (mKcp this) (new_address live)
                                 (ikcp_peeksize E (mKcp this))))))))"
proof (intro conjI impI allI)
  assume "\<not> hasReceivablePacket E this"
  then show "receive E B live this = (Returned \<lparr>pkt_data = None, pkt_size = 0\<rparr>, this, [])"
    by (rule receive_none)
next
  fix packet :: Packet and this' :: "'a KCPSession" and cs :: "call list"
  define r where "r = ikcp_recv E (mKcp this) (new_address live) (ikcp_peeksize E (mKcp this))"
  define buf where
    "buf = store_bytes (fst (snd r)) (chars (new_chars B live (unat (pkt_size packet))))"
  assume avail: "hasReceivablePacket E this"
    and ret: "receive E B live this = (Returned packet, this', cs)"
  from avail have nn: "0 \<le>s ikcp_peeksize E (mKcp this)"
    by (simp add: hasReceivablePacket_def)
  from ret have sz: "pkt_size packet = nextPacketSize E this"
    and st: "this' = this\<lparr>mKcp := snd (snd r)\<rparr>"
    and cs: "cs = []"
    and dat: "pkt_data packet = Some
        \<lparr>base = new_address live,
         chars = store_bytes (fst (snd r)) (chars (new_chars B live (unat (nextPacketSize E this))))\<rparr>"
    unfolding r_def by (auto simp add: receive_receivable [OF avail] split: if_splits)
  from sz nn show "uint (pkt_size packet) = sint (ikcp_peeksize E (mKcp this))"
    by (simp add: nextPacketSize_receivable [OF avail] uint_scast_nonneg)
  from st show "this' = this\<lparr>mKcp := snd (snd (ikcp_recv E (mKcp this) (new_address live)
                                        (ikcp_peeksize E (mKcp this))))\<rparr>"
    by (simp add: r_def)
  from cs show "cs = []" .
  have d: "pkt_data packet = Some \<lparr>base = new_address live, chars = buf\<rparr>"
    using dat sz by (simp add: buf_def)
  have fr: "new_address live \<notin> set live" by (rule new_address_fresh)
  have eng: "new_address live \<notin> kcp_buffers E (mKcp this')"
    if "kcp_buffers E (mKcp this) \<subseteq> set live \<and> recv_adopts_nothing E"
  proof -
    from that fr have "new_address live \<notin> kcp_buffers E (mKcp this)" by blast
    with that have "new_address live \<notin> kcp_buffers E (snd (snd r))"
      unfolding recv_adopts_nothing_def r_def by blast
    with st show ?thesis by simp
  qed
  have len: "length buf = unat (pkt_size packet)"
    if "length (fst (snd r)) \<le> unat (pkt_size packet)"
    using that by (simp add: buf_def length_store_bytes length_new_chars)
  have whole: "buf = fst (snd r)" if "length (fst (snd r)) = unat (pkt_size packet)"
    using that by (simp add: buf_def store_bytes_whole length_new_chars)
  from d fr eng len whole
  show "\<exists>buf. pkt_data packet = Some \<lparr>base = new_address live, chars = buf\<rparr> \<and>
            new_address live \<notin> set live \<and>
            (kcp_buffers E (mKcp this) \<subseteq> set live \<and> recv_adopts_nothing E \<longrightarrow>
               new_address live \<notin> kcp_buffers E (mKcp this')) \<and>
            buf = store_bytes
                    (fst (snd (ikcp_recv E (mKcp this) (new_address live)
                                 (ikcp_peeksize E (mKcp this)))))
                    (chars (new_chars B live (unat (pkt_size packet)))) \<and>
            (length (fst (snd (ikcp_recv E (mKcp this) (new_address live)
                                 (ikcp_peeksize E (mKcp this))))) \<le> unat (pkt_size packet) \<longrightarrow>
               length buf = unat (pkt_size packet)) \<and>
            (length (fst (snd (ikcp_recv E (mKcp this) (new_address live)
                                 (ikcp_peeksize E (mKcp this))))) = unat (pkt_size packet) \<longrightarrow>
               buf = fst (snd (ikcp_recv E (mKcp this) (new_address live)
                                 (ikcp_peeksize E (mKcp this)))))"
    unfolding r_def [symmetric] buf_def [symmetric] by blast
qed

lemma fresh_not_receivable: "\<not> hasReceivablePacket stub fresh"
  by (simp add: example_defs session_defs stub_defs signed_order_defs)

lemma holding_receivable: "hasReceivablePacket stub holding"
  by (simp add: example_defs session_defs stub_defs signed_order_defs)

lemma receive_holding:
  "receive stub cxx11 in_use holding =
     (Returned \<lparr>pkt_data = Some \<lparr>base = 2, chars = [104, 105]\<rparr>, pkt_size = 2\<rparr>, fresh, [])"
  by (simp add: example_defs session_defs stub_defs signed_order_defs)

lemma stub_buffers_in_use: "kcp_buffers stub (mKcp holding) \<subseteq> set in_use"
  by (simp add: example_defs session_defs stub_defs signed_order_defs)

lemma stub_adopts_nothing: "recv_adopts_nothing stub"
  by (simp add: recv_adopts_nothing_def stub_defs split: list.splits)

lemma stub_recv_holding:
  "fst (snd (ikcp_recv stub (mKcp holding) (new_address in_use)
               (ikcp_peeksize stub (mKcp holding)))) = [104, 105]"
  by (simp add: example_defs session_defs stub_defs signed_order_defs)

theorem receive_message_or_empty_witness:
  "\<not> hasReceivablePacket stub fresh \<and>
   receive stub cxx11 in_use fresh = (Returned \<lparr>pkt_data = None, pkt_size = 0\<rparr>, fresh, []) \<and>
   hasReceivablePacket stub holding \<and>
   receive stub cxx11 in_use holding =
     (Returned \<lparr>pkt_data = Some \<lparr>base = 2, chars = [104, 105]\<rparr>, pkt_size = 2\<rparr>, fresh, []) \<and>
   uint (2 :: SizeType) = sint (ikcp_peeksize stub (mKcp holding)) \<and>
   new_address in_use = 2 \<and> 2 \<notin> set in_use \<and>
   kcp_buffers stub (mKcp holding) \<subseteq> set in_use \<and> recv_adopts_nothing stub \<and>
   2 \<notin> kcp_buffers stub (mKcp fresh) \<and>
   length [104, 105 :: byte] = unat (2 :: SizeType)"
proof -
  have a: "new_address in_use = 2" by (simp add: new_address_def in_use_def)
  show ?thesis
    using fresh_not_receivable holding_receivable receive_holding stub_buffers_in_use
      stub_adopts_nothing stub_recv_holding a
      receive_message_or_empty [where E = stub and this = fresh and B = cxx11 and live = in_use]
      receive_message_or_empty [where E = stub and this = holding and B = cxx11 and live = in_use]
    by auto
qed

text \<open>
  The two builds differ where the engine stores fewer bytes than it reported: the rest of
  the array is zero in the one and what the memory held in the other.
\<close>

lemma upt_0_2: "[0..<2] = [0, Suc 0]"
  by (simp add: numeral_2_eq_2)

lemma receive_short_builds:
  "fst (receive short cxx14 in_use holding) =
     Returned \<lparr>pkt_data = Some \<lparr>base = 2, chars = [104, 0]\<rparr>, pkt_size = 2\<rparr> \<and>
   fst (receive short cxx11 in_use holding) =
     Returned \<lparr>pkt_data = Some \<lparr>base = 2, chars = [104, 170]\<rparr>, pkt_size = 2\<rparr>"
  by (simp add: example_defs session_defs stub_defs short_def cxx14_def upt_0_2
      signed_order_defs)

text \<open>
  C3. When a packet is receivable and \<open>ikcp_recv\<close> answers with a number other than the
  size \<open>ikcp_peeksize\<close> reported, \<open>receive()\<close> throws the \<open>std::runtime_error\<close>
  "receive: Internal inconsistency error!" and returns no packet. In every other state
  it returns a packet and throws nothing.
\<close>

theorem receive_throws_iff_inconsistent:
  "(hasReceivablePacket E this \<and>
    fst (ikcp_recv E (mKcp this) (new_address live) (ikcp_peeksize E (mKcp this))) \<noteq> ikcp_peeksize E (mKcp this)
      \<longrightarrow> fst (receive E B live this) = Threw inconsistency) \<and>
   (\<not> (hasReceivablePacket E this \<and>
    fst (ikcp_recv E (mKcp this) (new_address live) (ikcp_peeksize E (mKcp this))) \<noteq> ikcp_peeksize E (mKcp this))
      \<longrightarrow> (\<exists>packet. fst (receive E B live this) = Returned packet))"
proof (cases "hasReceivablePacket E this")
  case True
  then show ?thesis by (simp add: receive_receivable)
next
  case False
  then show ?thesis by (simp add: receive_none)
qed

lemma holding_receivable_broken: "hasReceivablePacket broken holding"
  by (simp add: example_defs broken_def session_defs stub_defs signed_order_defs)

lemma broken_recv_differs:
  "fst (ikcp_recv broken (mKcp holding) (new_address in_use) (ikcp_peeksize broken (mKcp holding)))
     \<noteq> ikcp_peeksize broken (mKcp holding)"
  by (simp add: example_defs broken_def session_defs stub_defs signed_order_defs)

lemma stub_recv_agrees:
  "fst (ikcp_recv stub (mKcp holding) (new_address in_use) (ikcp_peeksize stub (mKcp holding)))
     = ikcp_peeksize stub (mKcp holding)"
  by (simp add: example_defs session_defs stub_defs signed_order_defs)

theorem receive_throws_iff_inconsistent_witness:
  "(hasReceivablePacket broken holding \<and>
    fst (ikcp_recv broken (mKcp holding) (new_address in_use) (ikcp_peeksize broken (mKcp holding)))
      \<noteq> ikcp_peeksize broken (mKcp holding) \<and>
    fst (receive broken cxx11 in_use holding) = Threw inconsistency) \<and>
   (\<not> (hasReceivablePacket stub holding \<and>
    fst (ikcp_recv stub (mKcp holding) (new_address in_use) (ikcp_peeksize stub (mKcp holding)))
      \<noteq> ikcp_peeksize stub (mKcp holding)) \<and>
    (\<exists>packet. fst (receive stub cxx11 in_use holding) = Returned packet))"
  using holding_receivable_broken broken_recv_differs stub_recv_agrees
    receive_throws_iff_inconsistent
      [where E = broken and this = holding and B = cxx11 and live = in_use]
    receive_throws_iff_inconsistent
      [where E = stub and this = holding and B = cxx11 and live = in_use]
  by simp

section \<open>The output adapter\<close>

lemma emit_with_sink:
  "mOutputFunc this = Some f \<Longrightarrow>
   emit this ems = (Returned (), map (\<lambda>(buf, len). Output f buf (scast len)) ems)"
  by (induction ems) (auto simp add: mOutputFuncRaw_def)

lemma emit_no_sink:
  "mOutputFunc this = None \<Longrightarrow> ems \<noteq> [] \<Longrightarrow> emit this ems = (AssertFailed, [])"
  by (cases ems) (auto simp add: mOutputFuncRaw_def)

lemma emit_only_output: "Receive f p \<notin> set (snd (emit this ems))"
proof (induction ems)
  case Nil
  show ?case by simp
next
  case (Cons e ems)
  obtain buf len where e: "e = (buf, len)" by (cases e)
  from Cons show ?case
    by (cases "mOutputFunc this") (auto simp add: e mOutputFuncRaw_def split: prod.splits)
qed

text \<open>
  C7, as the code has it. With an output function installed, \<open>flush()\<close> and \<open>update()\<close>
  call it once for each emission of the engine (each buffer the engine hands to
  \<open>kcp->output\<close>), in the engine's order, inside the method: one call per emission, none
  merged, none split, none repeated. Each call gets the emission's bytes and its length
  converted to \<open>SizeType\<close>, which for a length that is not negative is the same number.
  The adapter \<open>mOutputFuncRaw\<close> returns 0 to the engine every time. How many encoded
  segments an emission holds is the engine's choice; the class passes it on as it is.
\<close>

theorem flush_one_call_per_emission:
  assumes "mOutputFunc this = Some f"
  shows "flush E this =
           (Returned (), this\<lparr>mKcp := snd (ikcp_flush E (mKcp this))\<rparr>,
            map (\<lambda>(buf, len). Output f buf (scast len)) (fst (ikcp_flush E (mKcp this)))) \<and>
         update E currentTimestamp this =
           (Returned (), this\<lparr>mKcp := snd (ikcp_update E (mKcp this) currentTimestamp)\<rparr>,
            map (\<lambda>(buf, len). Output f buf (scast len))
              (fst (ikcp_update E (mKcp this) currentTimestamp))) \<and>
         mOutputFuncRaw buf len this = (Returned 0, [Output f buf (scast len)]) \<and>
         (0 \<le>s len \<longrightarrow> uint (scast len :: SizeType) = sint len)"
proof (intro conjI impI)
  have s: "mOutputFunc (this\<lparr>mKcp := k\<rparr>) = Some f" for k
    using assms by simp
  show "flush E this =
           (Returned (), this\<lparr>mKcp := snd (ikcp_flush E (mKcp this))\<rparr>,
            map (\<lambda>(buf, len). Output f buf (scast len)) (fst (ikcp_flush E (mKcp this))))"
    by (simp add: flush_def emit_with_sink [OF s] split: prod.splits)
  show "update E currentTimestamp this =
           (Returned (), this\<lparr>mKcp := snd (ikcp_update E (mKcp this) currentTimestamp)\<rparr>,
            map (\<lambda>(buf, len). Output f buf (scast len))
              (fst (ikcp_update E (mKcp this) currentTimestamp)))"
    by (simp add: update_def emit_with_sink [OF s] split: prod.splits)
  show "mOutputFuncRaw buf len this = (Returned 0, [Output f buf (scast len)])"
    using assms by (simp add: mOutputFuncRaw_def)
  show "uint (scast len :: SizeType) = sint len" if "0 \<le>s len"
    using that by (rule uint_scast_nonneg)
qed

lemma queued_two_sink_set: "mOutputFunc queued_two = Some 7"
  by (simp add: example_defs with_sink_def queued_sink_def queued_two_def setOutputFunction_def
      session_defs stub_defs signed_order_defs)

lemma queued_two_flushed:
  "flush stub queued_two =
     (Returned (), with_sink, [Output 7 [81, 1, 2, 3] 4, Output 7 [81, 4, 5] 3]) \<and>
   update stub 100 queued_two =
     (Returned (), with_sink, [Output 7 [81, 1, 2, 3] 4, Output 7 [81, 4, 5] 3])"
  by (simp add: example_defs with_sink_def queued_sink_def queued_two_def setOutputFunction_def
      session_defs stub_defs signed_order_defs)

theorem flush_one_call_per_emission_witness:
  "mOutputFunc queued_two = Some 7 \<and>
   fst (ikcp_flush stub (mKcp queued_two)) = [([81, 1, 2, 3], 4), ([81, 4, 5], 3)] \<and>
   flush stub queued_two =
     (Returned (), with_sink, [Output 7 [81, 1, 2, 3] 4, Output 7 [81, 4, 5] 3]) \<and>
   update stub 100 queued_two =
     (Returned (), with_sink, [Output 7 [81, 1, 2, 3] 4, Output 7 [81, 4, 5] 3]) \<and>
   mOutputFuncRaw [81, 1, 2, 3] 4 queued_two = (Returned 0, [Output 7 [81, 1, 2, 3] 4]) \<and>
   0 \<le>s (4 :: cint) \<and> uint (scast (4 :: cint) :: SizeType) = sint (4 :: cint)"
proof -
  have ems: "fst (ikcp_flush stub (mKcp queued_two)) = [([81, 1, 2, 3], 4), ([81, 4, 5], 3)]"
    by (simp add: example_defs with_sink_def queued_sink_def queued_two_def
        setOutputFunction_def session_defs stub_defs signed_order_defs)
  have nn: "0 \<le>s (4 :: cint)" by (simp add: signed_order_defs)
  show ?thesis
    using queued_two_sink_set ems nn queued_two_flushed
      flush_one_call_per_emission [OF queued_two_sink_set, of stub 100 "[81, 1, 2, 3]" 4]
    by simp
qed

text \<open>
  C7 as stated fails: that a call of the output function carries one encoded segment and
  never several is not something the class sees to. With two messages queued, the engine
  that hands over one segment at a time gives two calls; on the engine that packs its
  queued segments into one output buffer, \<open>flush()\<close> makes a single call, and its bytes are
  the two segments one after the other.
\<close>

theorem one_segment_per_call_counterexample:
  "fst (ikcp_flush stub (mKcp queued_two)) = [([81, 1, 2, 3], 4), ([81, 4, 5], 3)] \<and>
   calls (flush stub queued_two) = [Output 7 [81, 1, 2, 3] 4, Output 7 [81, 4, 5] 3] \<and>
   calls (flush batching queued_two) = [Output 7 ([81, 1, 2, 3] @ [81, 4, 5]) 7]"
  by (simp add: example_defs with_sink_def queued_sink_def queued_two_def batching_def
      setOutputFunction_def session_defs stub_defs signed_order_defs)

text \<open>
  C9. The constructor leaves \<open>mOutputFunc\<close> null. While it is null, an engine emission
  during \<open>flush()\<close>, \<open>update()\<close> or \<open>input()\<close> fails the adapter's assertion: the
  method ends there, with no call made. (The assertion as compiled without
  \<open>NDEBUG\<close>.)
\<close>

theorem emission_without_sink_aborts:
  "mOutputFunc (KCPSession E conv indeterminate) = None \<and>
   (mOutputFunc this = None \<and> fst (ikcp_flush E (mKcp this)) \<noteq> [] \<longrightarrow>
      fst (flush E this) = AssertFailed \<and> calls (flush E this) = []) \<and>
   (mOutputFunc this = None \<and> fst (ikcp_update E (mKcp this) currentTimestamp) \<noteq> [] \<longrightarrow>
      fst (update E currentTimestamp this) = AssertFailed \<and>
      calls (update E currentTimestamp this) = []) \<and>
   (mOutputFunc this = None \<and> fst (snd (ikcp_input E (mKcp this) data sz)) \<noteq> [] \<longrightarrow>
      fst (input E B live data sz this) = AssertFailed \<and> calls (input E B live data sz this) = [])"
proof (intro conjI impI; (elim conjE)?)
  show "mOutputFunc (KCPSession E conv indeterminate) = None"
    by (simp add: KCPSession_def)
next
  assume n: "mOutputFunc this = None" and e: "fst (ikcp_flush E (mKcp this)) \<noteq> []"
  from n have s: "mOutputFunc (this\<lparr>mKcp := k\<rparr>) = None" for k by simp
  from e show "fst (flush E this) = AssertFailed" "calls (flush E this) = []"
    by (auto simp add: flush_def calls_def emit_no_sink [OF s] split: prod.splits)
next
  assume n: "mOutputFunc this = None"
    and e: "fst (ikcp_update E (mKcp this) currentTimestamp) \<noteq> []"
  from n have s: "mOutputFunc (this\<lparr>mKcp := k\<rparr>) = None" for k by simp
  from e show "fst (update E currentTimestamp this) = AssertFailed"
    "calls (update E currentTimestamp this) = []"
    by (auto simp add: update_def calls_def emit_no_sink [OF s] split: prod.splits)
next
  assume n: "mOutputFunc this = None"
    and e: "fst (snd (ikcp_input E (mKcp this) data sz)) \<noteq> []"
  from n have s: "mOutputFunc (this\<lparr>mKcp := k\<rparr>) = None" for k by simp
  from e show "fst (input E B live data sz this) = AssertFailed" "calls (input E B live data sz this) = []"
    by (auto simp add: input_def calls_def emit_no_sink [OF s] split: prod.splits)
qed

lemma queued_no_sink: "mOutputFunc queued = None"
  by (simp add: example_defs session_defs stub_defs signed_order_defs)

lemma queued_flush_emits: "fst (ikcp_flush stub (mKcp queued)) \<noteq> []"
  by (simp add: example_defs session_defs stub_defs signed_order_defs)

lemma queued_update_emits: "fst (ikcp_update stub (mKcp queued) 100) \<noteq> []"
  by (simp add: example_defs session_defs stub_defs signed_order_defs)

lemma fresh_no_sink: "mOutputFunc fresh = None"
  by (simp add: example_defs session_defs)

lemma echo_input_emits: "fst (snd (ikcp_input echo (mKcp fresh) [1, 2, 3] 3)) \<noteq> []"
  by (simp add: example_defs echo_def session_defs stub_defs signed_order_defs)

theorem emission_without_sink_aborts_witness:
  "mOutputFunc (KCPSession stub 0 False) = None \<and>
   (mOutputFunc queued = None \<and> fst (ikcp_flush stub (mKcp queued)) \<noteq> [] \<and>
      fst (flush stub queued) = AssertFailed \<and> calls (flush stub queued) = []) \<and>
   (fst (ikcp_update stub (mKcp queued) 100) \<noteq> [] \<and>
      fst (update stub 100 queued) = AssertFailed \<and> calls (update stub 100 queued) = []) \<and>
   (mOutputFunc fresh = None \<and> fst (snd (ikcp_input echo (mKcp fresh) [1, 2, 3] 3)) \<noteq> [] \<and>
      fst (input echo cxx11 in_use [1, 2, 3] 3 fresh) = AssertFailed \<and>
      calls (input echo cxx11 in_use [1, 2, 3] 3 fresh) = [])"
  using queued_no_sink queued_flush_emits queued_update_emits fresh_no_sink echo_input_emits
    emission_without_sink_aborts
      [where E = stub and conv = 0 and indeterminate = False and this = queued
         and currentTimestamp = 100 and data = "[]" and sz = 0 and B = cxx11 and live = in_use]
    emission_without_sink_aborts
      [where E = echo and conv = 0 and indeterminate = False and this = fresh
         and currentTimestamp = 100 and data = "[1, 2, 3]" and sz = 3 and B = cxx11
         and live = in_use]
  by simp


section \<open>Probing\<close>

text \<open>
  C5, as the code has it. \<open>nextPacketSize()\<close> returns the size the engine reports for
  the next receivable packet when there is one, and 0 when there is none;
  \<open>hasReceivablePacket()\<close> tells the two apart. Both are \<open>const\<close> and only read
  \<open>ikcp_peeksize\<close>, so the session is the same after them: a \<open>receive()\<close> that
  follows returns a packet of the size probed, with data exactly when
  \<open>hasReceivablePacket()\<close> said so.
\<close>

theorem nextPacketSize_probe:
  "(hasReceivablePacket E this \<longrightarrow>
      uint (nextPacketSize E this) = sint (ikcp_peeksize E (mKcp this))) \<and>
   (\<not> hasReceivablePacket E this \<longrightarrow> nextPacketSize E this = 0) \<and>
   (\<forall>packet this' cs. receive E B live this = (Returned packet, this', cs) \<longrightarrow>
      pkt_size packet = nextPacketSize E this \<and>
      (pkt_data packet \<noteq> None) = hasReceivablePacket E this)"
proof (intro conjI impI allI)
  assume avail: "hasReceivablePacket E this"
  then have "0 \<le>s ikcp_peeksize E (mKcp this)" by (simp add: hasReceivablePacket_def)
  then show "uint (nextPacketSize E this) = sint (ikcp_peeksize E (mKcp this))"
    by (simp add: nextPacketSize_receivable [OF avail] uint_scast_nonneg)
next
  assume "\<not> hasReceivablePacket E this"
  then show "nextPacketSize E this = 0" by (rule nextPacketSize_none)
next
  fix packet this' cs
  assume ret: "receive E B live this = (Returned packet, this', cs)"
  show "pkt_size packet = nextPacketSize E this"
  proof (cases "hasReceivablePacket E this")
    case True
    with ret show ?thesis by (auto simp add: receive_receivable split: if_splits)
  next
    case False
    with ret show ?thesis by (auto simp add: receive_none nextPacketSize_none)
  qed
  show "(pkt_data packet \<noteq> None) = hasReceivablePacket E this"
  proof (cases "hasReceivablePacket E this")
    case True
    with ret show ?thesis by (auto simp add: receive_receivable split: if_splits)
  next
    case False
    with ret show ?thesis by (auto simp add: receive_none)
  qed
qed

theorem nextPacketSize_probe_witness:
  "hasReceivablePacket stub holding \<and>
   uint (nextPacketSize stub holding) = sint (ikcp_peeksize stub (mKcp holding)) \<and>
   \<not> hasReceivablePacket stub fresh \<and> nextPacketSize stub fresh = 0 \<and>
   receive stub cxx11 in_use holding = (Returned \<lparr>pkt_data = Some \<lparr>base = 2, chars = [104, 105]\<rparr>, pkt_size = 2\<rparr>, fresh, []) \<and>
   (2 :: SizeType) = nextPacketSize stub holding"
  using holding_receivable fresh_not_receivable receive_holding
    nextPacketSize_probe [where E = stub and this = holding and B = cxx11 and live = in_use]
    nextPacketSize_probe [where E = stub and this = fresh and B = cxx11 and live = in_use]
  by auto

text \<open>
  C5 as stated fails: the result of \<open>nextPacketSize()\<close> does not tell "none" from a
  message of length 0. A session with nothing receivable and a session holding an empty
  message both give 0, as the note on the method says.
\<close>

theorem nextPacketSize_none_counterexample:
  "\<not> hasReceivablePacket stub fresh \<and> nextPacketSize stub fresh = 0 \<and>
   hasReceivablePacket stub holding_empty \<and> nextPacketSize stub holding_empty = 0"
  by (simp add: example_defs holding_empty_def session_defs stub_defs signed_order_defs)

section \<open>send and the setters\<close>

text \<open>
  C4, as the code has it. \<open>send(data, size)\<close> always returns, throws nothing and calls
  no callback: it hands \<open>data\<close> and \<open>static_cast<int>(size)\<close> (the same number when
  \<open>size\<close> is below \<open>2^31\<close>) to \<open>ikcp_send\<close>, keeps the engine state and drops the
  engine's result. \<open>setMTU\<close>, the two window setters and \<open>setPropertiesPrivate\<close> (behind
  the four property setters) do the same with their engine call: whatever the engine
  answers, nothing reaches the caller.
\<close>

theorem send_surfaces_nothing:
  "send E data sz this =
     (Returned (), this\<lparr>mKcp := snd (ikcp_send E (mKcp this) data (ucast sz))\<rparr>, []) \<and>
   (uint sz < 2 ^ 31 \<longrightarrow> sint (ucast sz :: cint) = uint sz) \<and>
   setMTU E mtu this =
     (Returned (), this\<lparr>mKcp := snd (ikcp_setmtu E (mKcp this) mtu)\<rparr>, []) \<and>
   setMaxSendWindowSize E sendWindow this =
     (Returned (), this\<lparr>mKcp := snd (ikcp_wndsize E (mKcp this) sendWindow 0)\<rparr>, []) \<and>
   setMaxReceiveWindowSize E receiveWindow this =
     (Returned (), this\<lparr>mKcp := snd (ikcp_wndsize E (mKcp this) 0 receiveWindow)\<rparr>, []) \<and>
   setPropertiesPrivate E nodelay interval resend nc this =
     (Returned (),
      this\<lparr>mKcp := snd (ikcp_nodelay E (mKcp this) nodelay interval resend nc)\<rparr>, [])"
  by (simp add: send_def setMTU_def setMaxSendWindowSize_def setMaxReceiveWindowSize_def
      setPropertiesPrivate_def sint_ucast_small split: prod.splits)

theorem send_surfaces_nothing_witness:
  "uint (3 :: SizeType) < 2 ^ 31 \<and> sint (ucast (3 :: SizeType) :: cint) = uint (3 :: SizeType) \<and>
   send stub [1, 2, 3] 3 fresh = (Returned (), queued, []) \<and>
   setMTU stub 1200 fresh =
     (Returned (), fresh\<lparr>mKcp := snd (ikcp_setmtu stub (mKcp fresh) 1200)\<rparr>, [])"
  using send_surfaces_nothing [of stub "[1, 2, 3]" 3 fresh 1200]
  by (simp add: example_defs session_defs stub_defs signed_order_defs)

text \<open>
  C4 as stated fails. An MTU of 0 is refused by the engine with \<open>-1\<close>, and \<open>setMTU(0)\<close>
  returns as if nothing had happened: the misuse is not surfaced. A \<open>size\<close> of \<open>2^31\<close>
  reaches the engine as the negative length \<open>-2147483648\<close>; the engine refuses it, the
  send queue is as before, and \<open>send\<close> returns normally: the message is not admitted.
\<close>

theorem misuse_not_surfaced_counterexample:
  "fst (ikcp_setmtu stub (mKcp fresh) 0) = - 1 \<and>
   setMTU stub 0 fresh = (Returned (), fresh, []) \<and>
   sint (ucast (0x80000000 :: SizeType) :: cint) = - 2147483648 \<and>
   fst (ikcp_send stub (mKcp fresh) (replicate 2147483648 0) (ucast (0x80000000 :: SizeType))) = - 1 \<and>
   send stub (replicate 2147483648 0) 0x80000000 fresh = (Returned (), fresh, [])"
  by (simp add: example_defs session_defs setMTU_def stub_defs signed_order_defs)


section \<open>\<open>input\<close> and the receive callback\<close>

lemma receive_calls: "calls (receive E B live this) = []"
  by (simp add: receive_def calls_def Let_def split: prod.splits)

lemma receive_keeps_callback: "mReceiveFunc (after (receive E B live this)) = mReceiveFunc this"
  by (simp add: receive_def after_def Let_def split: prod.splits)

text \<open>
  C6. In async mode with a receive callback set: when \<open>ikcp_input\<close> has run (its
  emissions, if any, passed on) and a packet is then receivable, \<open>input()\<close> calls the
  callback before it returns, as its last call, with the packet \<open>receive()\<close> takes from
  the engine, and leaves the session as that \<open>receive()\<close> left it. When no packet is
  receivable after \<open>ikcp_input\<close>, \<open>input()\<close> makes no call of a receive callback, in
  any mode.
\<close>

theorem input_async_callback:
  "(mAsyncMode this \<and> mReceiveFunc this = Some f \<and>
    emit (this\<lparr>mKcp := snd (snd (ikcp_input E (mKcp this) data sz))\<rparr>)
         (fst (snd (ikcp_input E (mKcp this) data sz))) = (Returned (), cs) \<and>
    hasReceivablePacket E (this\<lparr>mKcp := snd (snd (ikcp_input E (mKcp this) data sz))\<rparr>) \<and>
    fst (receive E B live (this\<lparr>mKcp := snd (snd (ikcp_input E (mKcp this) data sz))\<rparr>)) = Returned packet
    \<longrightarrow>
      fst (input E B live data sz this) = Returned () \<and>
      calls (input E B live data sz this) = cs @ [Receive f packet] \<and>
      after (input E B live data sz this) =
        after (receive E B live (this\<lparr>mKcp := snd (snd (ikcp_input E (mKcp this) data sz))\<rparr>))) \<and>
   (\<not> hasReceivablePacket E (this\<lparr>mKcp := snd (snd (ikcp_input E (mKcp this) data sz))\<rparr>)
    \<longrightarrow> (\<forall>g p. Receive g p \<notin> set (calls (input E B live data sz this))))"
proof (intro conjI impI allI; (elim conjE)?)
  define this1 where "this1 = this\<lparr>mKcp := snd (snd (ikcp_input E (mKcp this) data sz))\<rparr>"
  define ems where "ems = fst (snd (ikcp_input E (mKcp this) data sz))"
  assume a: "mAsyncMode this" and f: "mReceiveFunc this = Some f"
    and e: "emit (this\<lparr>mKcp := snd (snd (ikcp_input E (mKcp this) data sz))\<rparr>)
         (fst (snd (ikcp_input E (mKcp this) data sz))) = (Returned (), cs)"
    and h: "hasReceivablePacket E (this\<lparr>mKcp := snd (snd (ikcp_input E (mKcp this) data sz))\<rparr>)"
    and r: "fst (receive E B live (this\<lparr>mKcp := snd (snd (ikcp_input E (mKcp this) data sz))\<rparr>)) = Returned packet"
  obtain this2 cs2 where rr: "receive E B live this1 = (Returned packet, this2, cs2)"
    using r unfolding this1_def by (metis prod.collapse)
  have c2: "cs2 = []" using receive_calls [of E B live this1] rr by (simp add: calls_def)
  have f2: "mReceiveFunc this2 = Some f"
    using receive_keeps_callback [of E B live this1] rr f by (simp add: after_def this1_def)
  have inp: "input E B live data sz this = (Returned (), this2, cs @ [Receive f packet])"
    using a e h rr c2 f2 unfolding this1_def
    by (simp add: input_def Let_def case_prod_beta)
  from inp show "fst (input E B live data sz this) = Returned ()" by simp
  from inp show "calls (input E B live data sz this) = cs @ [Receive f packet]"
    by (simp add: calls_def)
  from inp rr show "after (input E B live data sz this) =
        after (receive E B live (this\<lparr>mKcp := snd (snd (ikcp_input E (mKcp this) data sz))\<rparr>))"
    by (simp add: after_def this1_def)
next
  fix g p
  define this1 where "this1 = this\<lparr>mKcp := snd (snd (ikcp_input E (mKcp this) data sz))\<rparr>"
  define ems where "ems = fst (snd (ikcp_input E (mKcp this) data sz))"
  assume "\<not> hasReceivablePacket E (this\<lparr>mKcp := snd (snd (ikcp_input E (mKcp this) data sz))\<rparr>)"
  then have n: "\<not> hasReceivablePacket E this1" by (simp add: this1_def)
  have "calls (input E B live data sz this) = snd (emit this1 ems)"
    using n unfolding this1_def ems_def
    by (simp add: input_def calls_def Let_def case_prod_beta split: result.splits)
  then show "Receive g p \<notin> set (calls (input E B live data sz this))"
    by (simp add: emit_only_output)
qed

lemma async_example:
  "mAsyncMode async \<and> mReceiveFunc async = Some 5 \<and>
   emit (async\<lparr>mKcp := snd (snd (ikcp_input stub (mKcp async) [81, 104, 105] 3))\<rparr>)
        (fst (snd (ikcp_input stub (mKcp async) [81, 104, 105] 3))) = (Returned (), []) \<and>
   hasReceivablePacket stub
     (async\<lparr>mKcp := snd (snd (ikcp_input stub (mKcp async) [81, 104, 105] 3))\<rparr>) \<and>
   fst (receive stub cxx11 in_use (async\<lparr>mKcp := snd (snd (ikcp_input stub (mKcp async) [81, 104, 105] 3))\<rparr>))
     = Returned \<lparr>pkt_data = Some \<lparr>base = 2, chars = [104, 105]\<rparr>, pkt_size = 2\<rparr>"
  by (simp add: example_defs async_def setAsyncMode_def setReceiveCallback_def
      session_defs stub_defs signed_order_defs)

lemma async_dropped:
  "\<not> hasReceivablePacket stub (async\<lparr>mKcp := snd (snd (ikcp_input stub (mKcp async) [] 0))\<rparr>)"
  by (simp add: example_defs async_def setAsyncMode_def setReceiveCallback_def
      session_defs stub_defs signed_order_defs)

theorem input_async_callback_witness:
  "(mAsyncMode async \<and> mReceiveFunc async = Some 5 \<and>
    hasReceivablePacket stub
      (async\<lparr>mKcp := snd (snd (ikcp_input stub (mKcp async) [81, 104, 105] 3))\<rparr>) \<and>
    fst (input stub cxx11 in_use [81, 104, 105] 3 async) = Returned () \<and>
    calls (input stub cxx11 in_use [81, 104, 105] 3 async)
      = [Receive 5 \<lparr>pkt_data = Some \<lparr>base = 2, chars = [104, 105]\<rparr>, pkt_size = 2\<rparr>] \<and>
    after (input stub cxx11 in_use [81, 104, 105] 3 async) = async) \<and>
   (\<not> hasReceivablePacket stub (async\<lparr>mKcp := snd (snd (ikcp_input stub (mKcp async) [] 0))\<rparr>) \<and>
    Receive 5 \<lparr>pkt_data = Some \<lparr>base = 2, chars = [104, 105]\<rparr>, pkt_size = 2\<rparr>
      \<notin> set (calls (input stub cxx11 in_use [] 0 async)))"
proof -
  note ex = async_example
  have "fst (input stub cxx11 in_use [81, 104, 105] 3 async) = Returned () \<and>
        calls (input stub cxx11 in_use [81, 104, 105] 3 async)
          = [] @ [Receive 5 \<lparr>pkt_data = Some \<lparr>base = 2, chars = [104, 105]\<rparr>, pkt_size = 2\<rparr>] \<and>
        after (input stub cxx11 in_use [81, 104, 105] 3 async) =
          after (receive stub cxx11 in_use
            (async\<lparr>mKcp := snd (snd (ikcp_input stub (mKcp async) [81, 104, 105] 3))\<rparr>))"
    using ex input_async_callback [where this = async and f = 5 and E = stub
        and data = "[81, 104, 105]" and sz = 3 and cs = "[]" and B = cxx11 and live = in_use
        and packet =
        "\<lparr>pkt_data = Some \<lparr>base = 2, chars = [104, 105]\<rparr>, pkt_size = 2\<rparr>"]
    by blast
  moreover have "after (receive stub cxx11 in_use
            (async\<lparr>mKcp := snd (snd (ikcp_input stub (mKcp async) [81, 104, 105] 3))\<rparr>)) = async"
    by (simp add: example_defs async_def setAsyncMode_def setReceiveCallback_def
      session_defs stub_defs signed_order_defs)
  moreover have "Receive 5 \<lparr>pkt_data = Some \<lparr>base = 2, chars = [104, 105]\<rparr>, pkt_size = 2\<rparr>
      \<notin> set (calls (input stub cxx11 in_use [] 0 async))"
    using async_dropped input_async_callback [where this = async and f = 5 and E = stub
        and data = "[]" and sz = 0 and cs = "[]" and B = cxx11 and live = in_use
        and packet =
        "\<lparr>pkt_data = Some \<lparr>base = 2, chars = [104, 105]\<rparr>, pkt_size = 2\<rparr>"]
    by blast
  ultimately show ?thesis using ex async_dropped by simp
qed

section \<open>The configuration setters\<close>

lemma setPropertiesPrivate_after:
  "mKcp (after (setPropertiesPrivate E nodelay interval resend nc this)) =
   snd (ikcp_nodelay E (mKcp this) nodelay interval resend nc)"
  by (simp add: setPropertiesPrivate_def after_def split: prod.splits)

text \<open>
  C8. On an engine that leaves a field alone when \<open>ikcp_nodelay\<close> gets \<open>NotChanged\<close> for
  it, and a window alone when \<open>ikcp_wndsize\<close> gets 0 for it: each of \<open>setNodelay\<close>,
  \<open>setInternalInterval\<close>, \<open>setFastResendThreshold\<close> and \<open>setCongestionControl\<close> leaves
  the other three of \<open>nodelay\<close>, \<open>interval\<close>, \<open>fastresend\<close>, \<open>nocwnd\<close> as they were;
  \<open>setMaxSendWindowSize\<close> leaves the receive window and \<open>setMaxReceiveWindowSize\<close> the
  send window as it was.
\<close>

theorem setters_change_own_tunable_only:
  assumes nd: "nodelay_keeps E" and wnd: "wndsize_keeps E"
  shows
    "kcp_interval E (mKcp (after (setNodelay E nodelay this))) = kcp_interval E (mKcp this) \<and>
     kcp_fastresend E (mKcp (after (setNodelay E nodelay this))) = kcp_fastresend E (mKcp this) \<and>
     kcp_nocwnd E (mKcp (after (setNodelay E nodelay this))) = kcp_nocwnd E (mKcp this) \<and>
     kcp_nodelay E (mKcp (after (setInternalInterval E internalInterval this)))
       = kcp_nodelay E (mKcp this) \<and>
     kcp_fastresend E (mKcp (after (setInternalInterval E internalInterval this)))
       = kcp_fastresend E (mKcp this) \<and>
     kcp_nocwnd E (mKcp (after (setInternalInterval E internalInterval this)))
       = kcp_nocwnd E (mKcp this) \<and>
     kcp_nodelay E (mKcp (after (setFastResendThreshold E fastResendThreshold this)))
       = kcp_nodelay E (mKcp this) \<and>
     kcp_interval E (mKcp (after (setFastResendThreshold E fastResendThreshold this)))
       = kcp_interval E (mKcp this) \<and>
     kcp_nocwnd E (mKcp (after (setFastResendThreshold E fastResendThreshold this)))
       = kcp_nocwnd E (mKcp this) \<and>
     kcp_nodelay E (mKcp (after (setCongestionControl E congestionControl this)))
       = kcp_nodelay E (mKcp this) \<and>
     kcp_interval E (mKcp (after (setCongestionControl E congestionControl this)))
       = kcp_interval E (mKcp this) \<and>
     kcp_fastresend E (mKcp (after (setCongestionControl E congestionControl this)))
       = kcp_fastresend E (mKcp this) \<and>
     kcp_rcv_wnd E (mKcp (after (setMaxSendWindowSize E sendWindow this)))
       = kcp_rcv_wnd E (mKcp this) \<and>
     kcp_snd_wnd E (mKcp (after (setMaxReceiveWindowSize E receiveWindow this)))
       = kcp_snd_wnd E (mKcp this)"
proof -
  have n1: "kcp_nodelay E (snd (ikcp_nodelay E k NotChanged iv rs nc)) = kcp_nodelay E k"
    for k iv rs nc using nd unfolding nodelay_keeps_def by blast
  have n2: "kcp_interval E (snd (ikcp_nodelay E k d NotChanged rs nc)) = kcp_interval E k"
    for k d rs nc using nd unfolding nodelay_keeps_def by blast
  have n3: "kcp_fastresend E (snd (ikcp_nodelay E k d iv NotChanged nc)) = kcp_fastresend E k"
    for k d iv nc using nd unfolding nodelay_keeps_def by blast
  have n4: "kcp_nocwnd E (snd (ikcp_nodelay E k d iv rs NotChanged)) = kcp_nocwnd E k"
    for k d iv rs using nd unfolding nodelay_keeps_def by blast
  have w1: "kcp_snd_wnd E (snd (ikcp_wndsize E k 0 rw)) = kcp_snd_wnd E k"
    for k rw using wnd unfolding wndsize_keeps_def by blast
  have w2: "kcp_rcv_wnd E (snd (ikcp_wndsize E k sw 0)) = kcp_rcv_wnd E k"
    for k sw using wnd unfolding wndsize_keeps_def by blast
  have sw: "mKcp (after (setMaxSendWindowSize E sendWindow this)) =
            snd (ikcp_wndsize E (mKcp this) sendWindow 0)"
    by (simp add: setMaxSendWindowSize_def after_def split: prod.splits)
  have rw: "mKcp (after (setMaxReceiveWindowSize E receiveWindow this)) =
            snd (ikcp_wndsize E (mKcp this) 0 receiveWindow)"
    by (simp add: setMaxReceiveWindowSize_def after_def split: prod.splits)
  show ?thesis
    by (simp only: setNodelay_def setInternalInterval_def setFastResendThreshold_def
        setCongestionControl_def setPropertiesPrivate_after sw rw n1 n2 n3 n4 w1 w2 simp_thms)
qed

lemma stub_nodelay_keeps: "nodelay_keeps stub"
  by (simp add: nodelay_keeps_def NotChanged_def stub_defs signed_order_defs)

lemma stub_wndsize_keeps: "wndsize_keeps stub"
  by (simp add: wndsize_keeps_def stub_defs signed_order_defs)

theorem setters_change_own_tunable_only_witness:
  "nodelay_keeps stub \<and> wndsize_keeps stub \<and>
   kcp_nodelay stub (mKcp (after (setNodelay stub True fresh))) = 1 \<and>
   kcp_interval stub (mKcp (after (setNodelay stub True fresh))) = kcp_interval stub (mKcp fresh) \<and>
   kcp_fastresend stub (mKcp (after (setNodelay stub True fresh))) = kcp_fastresend stub (mKcp fresh) \<and>
   kcp_nocwnd stub (mKcp (after (setNodelay stub True fresh))) = kcp_nocwnd stub (mKcp fresh) \<and>
   kcp_interval stub (mKcp (after (setInternalInterval stub 20 fresh))) = 20 \<and>
   kcp_nodelay stub (mKcp (after (setInternalInterval stub 20 fresh))) = kcp_nodelay stub (mKcp fresh) \<and>
   kcp_snd_wnd stub (mKcp (after (setMaxSendWindowSize stub 256 fresh))) = 256 \<and>
   kcp_rcv_wnd stub (mKcp (after (setMaxSendWindowSize stub 256 fresh))) = kcp_rcv_wnd stub (mKcp fresh) \<and>
   kcp_rcv_wnd stub (mKcp (after (setMaxReceiveWindowSize stub 256 fresh))) = 256 \<and>
   kcp_snd_wnd stub (mKcp (after (setMaxReceiveWindowSize stub 256 fresh))) = kcp_snd_wnd stub (mKcp fresh)"
proof -
  have own: "kcp_nodelay stub (mKcp (after (setNodelay stub True fresh))) = 1 \<and>
     kcp_interval stub (mKcp (after (setInternalInterval stub 20 fresh))) = 20 \<and>
     kcp_snd_wnd stub (mKcp (after (setMaxSendWindowSize stub 256 fresh))) = 256 \<and>
     kcp_rcv_wnd stub (mKcp (after (setMaxReceiveWindowSize stub 256 fresh))) = 256"
    by (simp add: example_defs session_defs setNodelay_def setInternalInterval_def
        setPropertiesPrivate_def setMaxSendWindowSize_def setMaxReceiveWindowSize_def
        NotChanged_def stub_defs signed_order_defs)
  show ?thesis
    using own stub_nodelay_keeps stub_wndsize_keeps
      setters_change_own_tunable_only [OF stub_nodelay_keeps stub_wndsize_keeps,
        of True fresh 20 0 True 256 256]
    by simp
qed

section \<open>A session just constructed\<close>

text \<open>
  C10. The constructor does not initialise \<open>mAsyncMode\<close>. Where its storage held a
  value that reads as true, a session on which \<open>setAsyncMode\<close> was never called is in
  async mode: with a receive callback set, \<open>input()\<close> of a datagram that completes a
  message calls the callback; with none set, the same \<open>input()\<close> throws
  \<open>std::bad_function_call\<close>, the message already taken from the engine.
\<close>

theorem fresh_session_async_mode_indeterminate:
  "mAsyncMode (KCPSession stub 0 True) \<and>
   input stub cxx11 in_use [81, 104, 105] 3 (setReceiveCallback (Some 5) (KCPSession stub 0 True)) =
     (Returned (), setReceiveCallback (Some 5) (KCPSession stub 0 True),
      [Receive 5 \<lparr>pkt_data = Some \<lparr>base = 2, chars = [104, 105]\<rparr>, pkt_size = 2\<rparr>]) \<and>
   input stub cxx11 in_use [81, 104, 105] 3 (KCPSession stub 0 True) =
     (Threw BadFunctionCall, KCPSession stub 0 True, [])"
  by (simp add: session_defs setReceiveCallback_def cxx11_def in_use_def stub_defs
      signed_order_defs)


end
